theory Spec2Isabelle
  imports Main "HOL-Library.Word" "HOL-Library.Log_Nat"
begin

unbundle bit_operations_syntax

section \<open>Python and numpy floating point numbers\<close>

text \<open>
  The scores of \<^verbatim>\<open>app.py\<close> are binary floating point numbers: Python's \<^verbatim>\<open>float\<close> is
  IEEE 754 binary64, the classifier and the regressor return numpy scalars (binary32 or
  binary64). A finite float is denoted by the rational it stands for; every arithmetic
  operation computes the exact result and rounds it to the nearest float of the format,
  ties to the even significand. The sign of a zero is not kept: no operation of the
  program observes it.
\<close>

record float_format =
  prec :: nat
  emax :: int

definition binary64 :: float_format where
  "binary64 = \<lparr>prec = 53, emax = 1023\<rparr>"

definition binary32 :: float_format where
  "binary32 = \<lparr>prec = 24, emax = 127\<rparr>"

definition emin :: "float_format \<Rightarrow> int" where
  "emin fmt = 1 - emax fmt"

definition valid_format :: "float_format \<Rightarrow> bool" where
  "valid_format fmt = (1 \<le> prec fmt \<and> 2 \<le> emax fmt)"

text \<open>\<open>ilog2 x\<close> is the binary exponent \<open>e\<close> of a positive \<open>x\<close>: \<open>2^e \<le> x < 2^(e+1)\<close>.\<close>

definition ilog2 :: "rat \<Rightarrow> int" where
  "ilog2 x = (case quotient_of x of (a, b) \<Rightarrow>
     let d = bitlen a - bitlen b in if 2 powi d \<le> x then d else d - 1)"

definition round_half_even :: "rat \<Rightarrow> int" where
  "round_half_even q = (let f = \<lfloor>q\<rfloor>; d = q - of_int f in
     if d < 1 / 2 then f else if 1 / 2 < d then f + 1
     else if even f then f else f + 1)"

text \<open>The spacing of the floats around \<open>x\<close>; below \<open>2^emin\<close> the numbers are subnormal.\<close>

definition ulp_of :: "float_format \<Rightarrow> rat \<Rightarrow> rat" where
  "ulp_of fmt x = 2 powi (max (ilog2 \<bar>x\<bar>) (emin fmt) - int (prec fmt) + 1)"

definition round_fin :: "float_format \<Rightarrow> rat \<Rightarrow> rat" where
  "round_fin fmt x = (if x = 0 then 0
     else of_int (round_half_even (x / ulp_of fmt x)) * ulp_of fmt x)"

datatype pyfloat = Fin rat | PosInf | NegInf | NaN

text \<open>Rounding an exact result into the format; a result beyond the largest float overflows.\<close>

definition fl :: "float_format \<Rightarrow> rat \<Rightarrow> pyfloat" where
  "fl fmt x = (let r = round_fin fmt x in
     if 2 powi (emax fmt + 1) \<le> r then PosInf
     else if r \<le> - (2 powi (emax fmt + 1)) then NegInf
     else Fin r)"

text \<open>Conversion of a float to another format (a Python float operand of a numpy scalar).\<close>

fun cast :: "float_format \<Rightarrow> pyfloat \<Rightarrow> pyfloat" where
  "cast fmt (Fin x) = fl fmt x"
| "cast fmt f = f"

fun fmul :: "float_format \<Rightarrow> pyfloat \<Rightarrow> pyfloat \<Rightarrow> pyfloat" where
  "fmul fmt (Fin x) (Fin y) = fl fmt (x * y)"
| "fmul fmt NaN b = NaN"
| "fmul fmt a NaN = NaN"
| "fmul fmt (Fin x) b = (if x = 0 then NaN else if (0 < x) = (b = PosInf) then PosInf else NegInf)"
| "fmul fmt a (Fin y) = (if y = 0 then NaN else if (0 < y) = (a = PosInf) then PosInf else NegInf)"
| "fmul fmt a b = (if a = b then PosInf else NegInf)"

fun fsub :: "float_format \<Rightarrow> pyfloat \<Rightarrow> pyfloat \<Rightarrow> pyfloat" where
  "fsub fmt (Fin x) (Fin y) = fl fmt (x - y)"
| "fsub fmt NaN b = NaN"
| "fsub fmt a NaN = NaN"
| "fsub fmt (Fin x) PosInf = NegInf"
| "fsub fmt (Fin x) NegInf = PosInf"
| "fsub fmt PosInf b = (if b = PosInf then NaN else PosInf)"
| "fsub fmt NegInf b = (if b = NegInf then NaN else NegInf)"

text \<open>Python's \<^verbatim>\<open>a < b\<close> on floats: every comparison with a NaN is false.\<close>

fun flt :: "pyfloat \<Rightarrow> pyfloat \<Rightarrow> bool" where
  "flt (Fin x) (Fin y) = (x < y)"
| "flt NaN b = False"
| "flt a NaN = False"
| "flt a NegInf = False"
| "flt PosInf b = False"
| "flt a b = True"

text \<open>Python's \<^verbatim>\<open>max(a, b)\<close> keeps \<^verbatim>\<open>a\<close> unless \<^verbatim>\<open>b\<close> is strictly greater.\<close>

definition py_max :: "pyfloat \<Rightarrow> pyfloat \<Rightarrow> pyfloat" where
  "py_max a b = (if flt a b then b else a)"

datatype py_error =
    KeyError string
  | ValueError
  | OverflowError
  | TypeError
  | AttributeError
  | Raised string

text \<open>
  Python's \<^verbatim>\<open>int(x)\<close> of a float truncates towards zero; it raises \<^verbatim>\<open>OverflowError\<close> on
  an infinity and \<^verbatim>\<open>ValueError\<close> on a NaN.
\<close>

fun py_int :: "pyfloat \<Rightarrow> py_error + int" where
  "py_int (Fin x) = Inr (if 0 \<le> x then \<lfloor>x\<rfloor> else \<lceil>x\<rceil>)"
| "py_int NaN = Inl ValueError"
| "py_int f = Inl OverflowError"

text \<open>A decimal literal of the source text is the nearest binary64 number.\<close>

definition py_literal :: "rat \<Rightarrow> pyfloat" where
  "py_literal q = fl binary64 q"

text \<open>Python's true division \<^verbatim>\<open>a / b\<close> of two ints (\<open>b\<close> is a non-zero constant in the source).\<close>

definition int_truediv :: "int \<Rightarrow> int \<Rightarrow> pyfloat" where
  "int_truediv a b = fl binary64 (of_int a / of_int b)"

section \<open>Content fingerprint: \<^verbatim>\<open>get_image_hash\<close>\<close>

text \<open>
  After \<^verbatim>\<open>convert("RGB")\<close> an image is its size and its raw pixel bytes;
  \<^verbatim>\<open>image.tobytes()\<close> returns the pixel bytes alone.
\<close>

type_synonym byte = "8 word"

record image =
  width :: nat
  height :: nat
  pixels :: "byte list"

definition tobytes :: "image \<Rightarrow> byte list" where
  "tobytes img = pixels img"

text \<open>\<^verbatim>\<open>hashlib.md5\<close>, after RFC 1321.\<close>

type_synonym md5_state = "32 word \<times> 32 word \<times> 32 word \<times> 32 word"

definition md5_shifts :: "nat list" where
  "md5_shifts = concat (map (\<lambda>r. concat (replicate 4 r))
     [[7, 12, 17, 22], [5, 9, 14, 20], [4, 11, 16, 23], [6, 10, 15, 21]])"

definition md5_sines :: "32 word list" where
  "md5_sines = [
    0xd76aa478, 0xe8c7b756, 0x242070db, 0xc1bdceee, 0xf57c0faf, 0x4787c62a, 0xa8304613, 0xfd469501,
    0x698098d8, 0x8b44f7af, 0xffff5bb1, 0x895cd7be, 0x6b901122, 0xfd987193, 0xa679438e, 0x49b40821,
    0xf61e2562, 0xc040b340, 0x265e5a51, 0xe9b6c7aa, 0xd62f105d, 0x02441453, 0xd8a1e681, 0xe7d3fbc8,
    0x21e1cde6, 0xc33707d6, 0xf4d50d87, 0x455a14ed, 0xa9e3e905, 0xfcefa3f8, 0x676f02d9, 0x8d2a4c8a,
    0xfffa3942, 0x8771f681, 0x6d9d6122, 0xfde5380c, 0xa4beea44, 0x4bdecfa9, 0xf6bb4b60, 0xbebfbc70,
    0x289b7ec6, 0xeaa127fa, 0xd4ef3085, 0x04881d05, 0xd9d4d039, 0xe6db99e5, 0x1fa27cf8, 0xc4ac5665,
    0xf4292244, 0x432aff97, 0xab9423a7, 0xfc93a039, 0x655b59c3, 0x8f0ccc92, 0xffeff47d, 0x85845dd1,
    0x6fa87e4f, 0xfe2ce6e0, 0xa3014314, 0x4e0811a1, 0xf7537e82, 0xbd3af235, 0x2ad7d2bb, 0xeb86d391]"

definition le_bytes :: "nat \<Rightarrow> int \<Rightarrow> byte list" where
  "le_bytes n v = map (\<lambda>i. of_int (v div 256 ^ i)) [0..<n]"

fun le_word :: "byte list \<Rightarrow> 32 word" where
  "le_word [] = 0"
| "le_word (b # bs) = ucast b OR push_bit 8 (le_word bs)"

fun chunks :: "nat \<Rightarrow> 'a list \<Rightarrow> 'a list list" where
  "chunks n [] = []"
| "chunks n xs = (if n = 0 then [xs] else take n xs # chunks n (drop n xs))"

definition md5_pad :: "byte list \<Rightarrow> byte list" where
  "md5_pad m = m @ [0x80] @ replicate (nat ((55 - int (length m)) mod 64)) 0
     @ le_bytes 8 (8 * int (length m) mod 2 ^ 64)"

definition md5_step :: "32 word list \<Rightarrow> md5_state \<Rightarrow> nat \<Rightarrow> md5_state" where
  "md5_step M st i = (case st of (A, B, C, D) \<Rightarrow>
     let (F, g) =
       (if i < 16 then ((B AND C) OR (NOT B AND D), i)
        else if i < 32 then ((D AND B) OR (NOT D AND C), (5 * i + 1) mod 16)
        else if i < 48 then (B XOR C XOR D, (3 * i + 5) mod 16)
        else (C XOR (B OR NOT D), (7 * i) mod 16));
       F' = F + A + md5_sines ! i + M ! g
     in (D, B + word_rotl (md5_shifts ! i) F', B, C))"

definition md5_block :: "md5_state \<Rightarrow> byte list \<Rightarrow> md5_state" where
  "md5_block st block = (case st of (a0, b0, c0, d0) \<Rightarrow>
     case foldl (md5_step (map le_word (chunks 4 block))) st [0..<64] of
       (A, B, C, D) \<Rightarrow> (a0 + A, b0 + B, c0 + C, d0 + D))"

definition md5 :: "byte list \<Rightarrow> byte list" where
  "md5 m = (case foldl md5_block (0x67452301, 0xefcdab89, 0x98badcfe, 0x10325476)
                 (chunks 64 (md5_pad m)) of
     (a, b, c, d) \<Rightarrow> concat (map (\<lambda>w. le_bytes 4 (uint w)) [a, b, c, d]))"

definition hex_digit :: "nat \<Rightarrow> char" where
  "hex_digit n = ''0123456789abcdef'' ! n"

definition hexdigest :: "byte list \<Rightarrow> string" where
  "hexdigest bs = concat (map (\<lambda>b. [hex_digit (unat b div 16), hex_digit (unat b mod 16)]) bs)"

definition get_image_hash :: "image \<Rightarrow> string" where
  "get_image_hash img = hexdigest (md5 (tobytes img))"

section \<open>Session state\<close>

text \<open>
  \<^verbatim>\<open>st.session_state\<close> after \<^verbatim>\<open>initialize_session_state\<close>: every key is present, Python's
  \<^verbatim>\<open>None\<close> is \<open>None\<close>. A time stamp is a reading of the clock (\<^verbatim>\<open>datetime.now()\<close>).
\<close>

type_synonym timestamp = nat

record forecast_record =
  fr_prediction :: int
  fr_city :: string
  fr_country :: string
  fr_month :: string
  fr_timestamp :: timestamp

record session_state =
  analysis_done :: bool
  prediction_result :: "pyfloat option"
  confidence_score :: "pyfloat option"
  analyzed_image_hash :: "string option"
  analysis_timestamp :: "timestamp option"
  current_tab :: string
  forecast_done :: bool
  forecast_result :: "forecast_record option"
  models_loaded :: bool

definition initialize_session_state :: session_state where
  "initialize_session_state = \<lparr>
     analysis_done = False,
     prediction_result = None,
     confidence_score = None,
     analyzed_image_hash = None,
     analysis_timestamp = None,
     current_tab = ''detection'',
     forecast_done = False,
     forecast_result = None,
     models_loaded = False\<rparr>"

definition reset_analysis_state :: "session_state \<Rightarrow> session_state" where
  "reset_analysis_state s = s\<lparr>
     analysis_done := False,
     prediction_result := None,
     confidence_score := None,
     analyzed_image_hash := None,
     analysis_timestamp := None\<rparr>"


text \<open>
  What one run of the script does besides writing the session state: \<open>Inference img\<close> is a
  call of \<open>process_image_prediction\<close> on \<open>img\<close> (line 710), the three errors are the
  \<^verbatim>\<open>st.error\<close> messages of lines 713, 811 and 917 with the error they show, the two
  \<open>Show\<close> events are the result cards, and \<open>Rerun\<close> is \<^verbatim>\<open>st.rerun()\<close>.
\<close>

datatype event =
    Inference image
  | AnalysisError string
  | ImageError py_error
  | ShowDetection pyfloat pyfloat timestamp
  | ForecastError py_error
  | ShowForecast int string
  | Rerun

section \<open>Detection module\<close>

text \<open>
  The classifier with its preprocessing (resize to 128 x 128, scaling by 255, batch axis,
  \<^verbatim>\<open>model.predict(...)[0][0]\<close>) is a parameter: \<open>Inr p\<close> is the score, \<open>Inl m\<close> an exception
  \<open>e\<close> raised on the way, with \<^verbatim>\<open>str(e)\<close> = \<open>m\<close>. \<open>fmt\<close> is the format in which
  \<^verbatim>\<open>1 - prediction\<close> is computed: that of the score, or binary64 where numpy promotes the
  difference of an int and a float32 scalar to float64.
\<close>

type_synonym classifier = "image \<Rightarrow> string + pyfloat"

definition process_image_prediction ::
  "float_format \<Rightarrow> image \<Rightarrow> classifier \<Rightarrow> pyfloat option \<times> pyfloat option \<times> string option" where
  "process_image_prediction fmt img model = (case model img of
       Inr prediction \<Rightarrow>
         let confidence = py_max prediction (fsub fmt (Fin 1) prediction)
         in (Some prediction, Some confidence, None)
     | Inl e \<Rightarrow> (None, None, Some e))"

text \<open>Truth value of \<^verbatim>\<open>error\<close> in \<^verbatim>\<open>if error:\<close>: \<^verbatim>\<open>None\<close> and the empty string are false.\<close>

definition truthy :: "string option \<Rightarrow> bool" where
  "truthy error = (case error of None \<Rightarrow> False | Some m \<Rightarrow> m \<noteq> [])"

text \<open>
  One run of the detection page (lines 634 to 811), with the detection model loaded.
  \<open>uploaded_file\<close> is \<open>None\<close> without an upload, \<open>Some (Inl e)\<close> when
  \<^verbatim>\<open>Image.open(...).convert("RGB")\<close> raises \<open>e\<close>, and \<open>Some (Inr img)\<close> otherwise;
  \<open>analyse_clicked\<close> and \<open>new_clicked\<close> are the values of the two buttons; \<open>now\<close> is the
  clock.

  \<open>show_results\<close> is the display branch (lines 731 to 808): the result card compares the
  score with 0.5 and formats the time stamp, the gauge multiplies the confidence by 100,
  so that a \<^verbatim>\<open>None\<close> among them raises, is caught at line 810 and the buttons are
  not reached. \<open>run_analysis\<close> is the body of the analysis button (lines 670 to 728),
  and \<open>detection_page\<close> starts with the fingerprint check of lines 638 to 643.
\<close>

definition show_results :: "bool \<Rightarrow> session_state \<Rightarrow> session_state \<times> event list" where
  "show_results new_clicked s = (case prediction_result s of
       None \<Rightarrow> (s, [ImageError TypeError])
     | Some prediction \<Rightarrow> (case analysis_timestamp s of
         None \<Rightarrow> (s, [ImageError AttributeError])
       | Some timestamp \<Rightarrow> (case confidence_score s of
           None \<Rightarrow> (s, [ImageError TypeError])
         | Some confidence \<Rightarrow>
             if new_clicked
             then (reset_analysis_state s, [ShowDetection prediction confidence timestamp, Rerun])
             else (s, [ShowDetection prediction confidence timestamp]))))"

definition run_analysis ::
  "float_format \<Rightarrow> classifier \<Rightarrow> timestamp \<Rightarrow> image \<Rightarrow> string \<Rightarrow> session_state
     \<Rightarrow> session_state \<times> event list" where
  "run_analysis fmt model now img current_image_hash s =
     (case process_image_prediction fmt img model of (prediction, confidence, error) \<Rightarrow>
        if truthy error then (s, [Inference img, AnalysisError (the error)])
        else (s\<lparr>prediction_result := prediction,
                confidence_score := confidence,
                analyzed_image_hash := Some current_image_hash,
                analysis_done := True,
                analysis_timestamp := Some now\<rparr>, [Inference img, Rerun]))"

definition detection_page ::
  "float_format \<Rightarrow> classifier \<Rightarrow> timestamp \<Rightarrow> (py_error + image) option \<Rightarrow> bool \<Rightarrow> bool
     \<Rightarrow> session_state \<Rightarrow> session_state \<times> event list" where
  "detection_page fmt model now uploaded_file analyse_clicked new_clicked s =
     (case uploaded_file of
        None \<Rightarrow> (s, [])
      | Some (Inl e) \<Rightarrow> (s, [ImageError e])
      | Some (Inr img) \<Rightarrow>
          let current_image_hash = get_image_hash img;
              s1 = (if \<not> analysis_done s \<or> analyzed_image_hash s \<noteq> Some current_image_hash
                    then reset_analysis_state s else s)
          in if \<not> analysis_done s1
             then (if analyse_clicked
                   then run_analysis fmt model now img current_image_hash s1
                   else (s1, []))
             else show_results new_clicked s1)"

section \<open>Forecast module\<close>

datatype pynum = PyInt int | PyFloat pyfloat

record forecast_inputs =
  temperature :: pyfloat
  rainfall :: pyfloat
  humidity :: pyfloat
  previous_cases :: int
  population :: string
  healthcare_index :: int
  country :: string
  city :: string
  month :: string

text \<open>The regressor is a parameter as well: \<^verbatim>\<open>models['forecast_model'].predict(input_data)[0]\<close>.\<close>

type_synonym regressor = "pynum list \<Rightarrow> string + pyfloat"

definition countries :: "string list" where
  "countries = [''Senegal'', ''Mali'', ''Guinea'', ''Ivory Coast'', ''Burkina Faso'']"

definition city_options :: "(string \<times> string list) list" where
  "city_options = [
     (''Senegal'', [''Dakar'', ''Thies'', ''Saint-Louis'', ''Ziguinchor'']),
     (''Mali'', [''Bamako'', ''Sikasso'', ''Kayes'', ''Mopti'']),
     (''Guinea'', [''Conakry'', ''Nzerekore'', ''Kindia'', ''Labe'']),
     (''Ivory Coast'', [''Abidjan'', ''Yamoussoukro'', ''Bouake'', ''Daloa'']),
     (''Burkina Faso'', [''Ouagadougou'', ''Bobo-Dioulasso'', ''Koudougou'', ''Banfora''])]"

text \<open>The month names; \<open>CHR 0xFB\<close> is the letter u with circumflex of the fourth one.\<close>

definition months :: "string list" where
  "months = [''Mai'', ''Juin'', ''Juillet'', ''Ao'' @ [CHR 0xFB] @ ''t'', ''Septembre'', ''Octobre'']"



text \<open>A dictionary literal is an association list; \<^verbatim>\<open>d[k]\<close> raises \<^verbatim>\<open>KeyError\<close> on a missing key.\<close>

definition getitem :: "(string \<times> 'v) list \<Rightarrow> string \<Rightarrow> py_error + 'v" where
  "getitem d k = (case map_of d k of None \<Rightarrow> Inl (KeyError k) | Some v \<Rightarrow> Inr v)"


definition month_map :: "(string \<times> int) list" where
  "month_map = [(''Mai'', 0), (''Juin'', 1), (''Juillet'', 2), (''Ao'' @ [CHR 0xFB] @ ''t'', 3),
     (''Septembre'', 4), (''Octobre'', 5)]"

definition all_cities :: "string list" where
  "all_cities = [''Dakar'', ''Thies'', ''Saint-Louis'', ''Ziguinchor'', ''Bamako'', ''Sikasso'',
     ''Kayes'', ''Mopti'', ''Conakry'', ''Nzerekore'', ''Kindia'', ''Labe'', ''Abidjan'',
     ''Yamoussoukro'', ''Bouake'', ''Daloa'', ''Ouagadougou'', ''Bobo-Dioulasso'', ''Koudougou'',
     ''Banfora'']"

text \<open>\<^verbatim>\<open>{c: i for i, c in enumerate(all_cities)}\<close>: a later entry would replace an earlier one.\<close>

definition city_map :: "(string \<times> int) list" where
  "city_map = rev (map (\<lambda>(i, c). (c, int i)) (enumerate 0 all_cities))"

definition country_map :: "(string \<times> int) list" where
  "country_map = [(''Senegal'', 0), (''Mali'', 1), (''Guinea'', 2), (''Ivory Coast'', 3),
     (''Burkina Faso'', 4)]"

text \<open>The row of \<^verbatim>\<open>input_data\<close> (lines 892 to 895); the lookups are evaluated left to right.\<close>

definition input_data :: "forecast_inputs \<Rightarrow> py_error + pynum list" where
  "input_data inp = (case getitem country_map (country inp) of
       Inl e \<Rightarrow> Inl e
     | Inr c \<Rightarrow> (case getitem city_map (city inp) of
         Inl e \<Rightarrow> Inl e
       | Inr t \<Rightarrow> (case getitem month_map (month inp) of
           Inl e \<Rightarrow> Inl e
         | Inr m \<Rightarrow> Inr [PyInt c, PyInt t, PyInt m, PyFloat (temperature inp),
                         PyFloat (humidity inp), PyFloat (rainfall inp),
                         PyInt (previous_cases inp)])))"

definition population_factor :: "(string \<times> pyfloat) list" where
  "population_factor = [(''Petite (<50k)'', py_literal (7 / 10)),
     (''Moyenne (50k-200k)'', py_literal 1), (''Grande (>200k)'', py_literal (3 / 2))]"

text \<open>\<^verbatim>\<open>1.2 - (healthcare_index / 10)\<close>, in Python floats.\<close>

definition healthcare_factor :: "int \<Rightarrow> pyfloat" where
  "healthcare_factor h = fsub binary64 (py_literal (6 / 5)) (int_truediv h 10)"

text \<open>
  \<^verbatim>\<open>base_prediction * population_factor * healthcare_factor\<close>. \<open>fmt\<close> is the format of
  \<open>base_prediction\<close> as the product sees it: binary64 for a Python float or a numpy
  float64 (and for a numpy float32 under the promotion rules of numpy 1), binary32 for a
  numpy float32 under the rules of numpy 2, where the Python float operands are converted
  to binary32 first.
\<close>

definition adjusted :: "float_format \<Rightarrow> pyfloat \<Rightarrow> pyfloat \<Rightarrow> pyfloat \<Rightarrow> pyfloat" where
  "adjusted fmt base_prediction pf hf = fmul fmt (fmul fmt base_prediction (cast fmt pf)) (cast fmt hf)"

text \<open>\<^verbatim>\<open>max(0, int(...))\<close> (line 902).\<close>

definition final_prediction :: "float_format \<Rightarrow> pyfloat \<Rightarrow> pyfloat \<Rightarrow> pyfloat \<Rightarrow> py_error + int" where
  "final_prediction fmt base_prediction pf hf = (case py_int (adjusted fmt base_prediction pf hf) of
       Inl e \<Rightarrow> Inl e
     | Inr n \<Rightarrow> Inr (max 0 n))"

text \<open>The body of the \<^verbatim>\<open>try\<close> block of the forecast button, up to the final prediction.\<close>

definition forecast :: "float_format \<Rightarrow> regressor \<Rightarrow> forecast_inputs \<Rightarrow> py_error + int" where
  "forecast fmt forecast_model inp = (case input_data inp of
       Inl e \<Rightarrow> Inl e
     | Inr row \<Rightarrow> (case forecast_model row of
         Inl m \<Rightarrow> Inl (Raised m)
       | Inr base_prediction \<Rightarrow> (case getitem population_factor (population inp) of
           Inl e \<Rightarrow> Inl e
         | Inr pf \<Rightarrow> final_prediction fmt base_prediction pf
                      (healthcare_factor (healthcare_index inp)))))"

text \<open>
  The risk levels of line 928: low, moderate and high, in French; \<open>CHR 0xE9\<close> and
  \<open>CHR 0xC9\<close> are the letter e with acute accent, small and capital.
\<close>

definition risk_level :: "int \<Rightarrow> string" where
  "risk_level p = (if p < 20 then ''Faible''
     else if p < 50 then ''Mod'' @ [CHR 0xE9] @ ''r'' @ [CHR 0xE9]
     else [CHR 0xC9] @ ''lev'' @ [CHR 0xE9])"



section \<open>Predicates of the statements and example inputs\<close>



fun is_inference :: "event \<Rightarrow> bool" where
  "is_inference (Inference img) = True"
| "is_inference e = False"

text \<open>Two different images with the same pixel bytes, and a third one.\<close>

definition img_A :: image where
  "img_A = \<lparr>width = 2, height = 1, pixels = [255, 0, 0, 0, 0, 255]\<rparr>"

definition img_B :: image where
  "img_B = \<lparr>width = 1, height = 2, pixels = [255, 0, 0, 0, 0, 255]\<rparr>"


text \<open>The session after the analysis of \<open>img_A\<close> at time 10 by a classifier that returns 0.75.\<close>

definition session_A :: session_state where
  "session_A = initialize_session_state\<lparr>
     prediction_result := Some (Fin (3 / 4)),
     confidence_score := Some (Fin (3 / 4)),
     analyzed_image_hash := Some (get_image_hash img_A),
     analysis_done := True,
     analysis_timestamp := Some 10\<rparr>"

text \<open>The position of the first occurrence of \<open>x\<close> in a list.\<close>

fun index_of :: "'a list \<Rightarrow> 'a \<Rightarrow> nat" where
  "index_of [] x = 0"
| "index_of (y # ys) x = (if x = y then 0 else Suc (index_of ys x))"

text \<open>A request whose city is one of the cities of its country, and whose month is listed.\<close>

definition valid_request :: "forecast_inputs \<Rightarrow> bool" where
  "valid_request inp = (country inp \<in> set countries
     \<and> (case map_of city_options (country inp) of
          Some cities \<Rightarrow> city inp \<in> set cities
        | None \<Rightarrow> False)
     \<and> month inp \<in> set months)"

text \<open>Example requests: Dakar in Senegal, Dakar in Mali, and a city that is not listed.\<close>

definition request_dakar :: forecast_inputs where
  "request_dakar = \<lparr>temperature = Fin 30, rainfall = Fin 120, humidity = Fin 70,
     previous_cases = 20, population = ''Grande (>200k)'', healthcare_index = 10,
     country = ''Senegal'', city = ''Dakar'', month = ''Juin''\<rparr>"



section \<open>Rounding to the nearest float\<close>

text \<open>Powers of two with integer exponents.\<close>

lemma two_powi_less_iff: "((2::rat) powi a < 2 powi b) = (a < b)"
proof
  assume "(2::rat) powi a < 2 powi b"
  show "a < b"
  proof (rule ccontr)
    assume "\<not> a < b"
    then have "b \<le> a" by simp
    then have "(2::rat) powi b \<le> 2 powi a" by (rule power_int_increasing) simp
    with \<open>(2::rat) powi a < 2 powi b\<close> show False by simp
  qed
next
  assume "a < b"
  then show "(2::rat) powi a < 2 powi b" by (rule power_int_strict_increasing) simp
qed

lemma two_powi_le_iff: "((2::rat) powi a \<le> 2 powi b) = (a \<le> b)"
  using two_powi_less_iff [of b a] by (simp add: not_less [symmetric])

lemma two_powi_add: "(2::rat) powi (a + b) = 2 powi a * 2 powi b"
  by (simp add: power_int_add)

lemma bitlen_powi:
  assumes "0 < a"
  shows "(2::rat) powi (bitlen a - 1) \<le> of_int a" and "of_int a < (2::rat) powi bitlen a"
proof -
  from assms have b1: "1 \<le> bitlen a"
    using bitlen_eq_zero_iff [of a] bitlen_nonneg [of a] by linarith
  from bitlen_bounds [OF assms] have lo: "2 ^ nat (bitlen a - 1) \<le> a" and hi: "a < 2 ^ nat (bitlen a)"
    by simp_all
  have "(2::rat) powi (bitlen a - 1) = of_int (2 ^ nat (bitlen a - 1))"
    using b1 by (simp add: power_int_nonneg_exp)
  also have "\<dots> \<le> of_int a" using lo by (simp only: of_int_le_iff)
  finally show "(2::rat) powi (bitlen a - 1) \<le> of_int a" .
  have "(of_int a :: rat) < of_int (2 ^ nat (bitlen a))" using hi by (simp only: of_int_less_iff)
  also have "\<dots> = 2 powi bitlen a"
    using b1 by (simp add: power_int_nonneg_exp)
  finally show "of_int a < (2::rat) powi bitlen a" .
qed

text \<open>The binary exponent computed by \<open>ilog2\<close> is the right one.\<close>

lemma ilog2_bounds:
  assumes "0 < x"
  shows "2 powi (ilog2 x) \<le> x" and "x < 2 powi (ilog2 x + 1)"
proof -
  obtain a b where q: "quotient_of x = (a, b)" by (cases "quotient_of x")
  then have b: "0 < b" and x: "x = of_int a / of_int b"
    by (simp_all add: quotient_of_denom_pos quotient_of_div)
  with assms have a: "0 < a" by (simp add: zero_less_divide_iff)
  define d where "d = bitlen a - bitlen b"
  have bq: "0 < (of_int b :: rat)" using b by simp
  have "x < 2 powi bitlen a / 2 powi (bitlen b - 1)"
    unfolding x using bitlen_powi [OF a] bitlen_powi [OF b] bq a
    by (intro frac_less) simp_all
  also have "\<dots> = 2 powi (bitlen a - (bitlen b - 1))"
    by (simp add: power_int_diff)
  also have "bitlen a - (bitlen b - 1) = d + 1"
    by (simp add: d_def)
  finally have up: "x < 2 powi (d + 1)" .
  have "d - 1 = bitlen a - 1 - bitlen b"
    by (simp add: d_def)
  then have "(2::rat) powi (d - 1) = 2 powi (bitlen a - 1) / 2 powi bitlen b"
    by (simp add: power_int_diff)
  also have "\<dots> \<le> x"
    unfolding x using bitlen_powi [OF a] bitlen_powi [OF b] bq a
    by (intro frac_le) simp_all
  finally have lo: "2 powi (d - 1) \<le> x" .
  have i: "ilog2 x = (if 2 powi d \<le> x then d else d - 1)"
    by (simp add: ilog2_def q d_def Let_def)
  show "2 powi (ilog2 x) \<le> x" using lo by (simp add: i)
  show "x < 2 powi (ilog2 x + 1)" using up by (simp add: i not_le)
qed

lemma ilog2_unique:
  assumes "0 < x" and "2 powi e \<le> x" and "x < 2 powi (e + 1)"
  shows "ilog2 x = e"
proof -
  from ilog2_bounds [OF assms(1)] assms(2,3)
  have "(2::rat) powi (ilog2 x) < 2 powi (e + 1)" and "(2::rat) powi e < 2 powi (ilog2 x + 1)"
    by simp_all
  then show ?thesis by (simp add: two_powi_less_iff)
qed

lemma ilog2_mono:
  assumes "0 < x" and "x \<le> y"
  shows "ilog2 x \<le> ilog2 y"
proof -
  from assms have y: "0 < y" by simp
  from ilog2_bounds(1) [OF assms(1)] ilog2_bounds(2) [OF y] assms(2)
  have "(2::rat) powi (ilog2 x) < 2 powi (ilog2 y + 1)" by simp
  then show ?thesis by (simp add: two_powi_less_iff)
qed

text \<open>Rounding to the nearest integer, ties to even, is monotone and odd.\<close>

lemma round_half_even_cases:
  "round_half_even q = \<lfloor>q\<rfloor> \<or> round_half_even q = \<lfloor>q\<rfloor> + 1"
  by (simp add: round_half_even_def Let_def)

lemma round_half_even_of_int [simp]: "round_half_even (of_int n) = n"
  by (simp add: round_half_even_def)

lemma round_half_even_zero [simp]: "round_half_even 0 = 0"
  using round_half_even_of_int [of 0] by simp

lemma round_half_even_power2 [simp]: "round_half_even (2 ^ n) = 2 ^ n"
  using round_half_even_of_int [of "2 ^ n"] by simp

lemma round_half_even_mono:
  assumes "q \<le> r"
  shows "round_half_even q \<le> round_half_even r"
proof (cases "\<lfloor>q\<rfloor> = \<lfloor>r\<rfloor>")
  case True
  with assms show ?thesis
    by (auto simp add: round_half_even_def Let_def)
next
  case False
  with assms have "\<lfloor>q\<rfloor> + 1 \<le> \<lfloor>r\<rfloor>"
    using floor_mono [OF assms] by simp
  with round_half_even_cases [of q] round_half_even_cases [of r] show ?thesis
    by auto
qed

lemma round_half_even_minus: "round_half_even (- q) = - round_half_even q"
proof (cases "q \<in> \<int>")
  case True
  then obtain n where "q = of_int n" by (auto elim: Ints_cases)
  then show ?thesis by (simp flip: of_int_minus)
next
  case False
  then have "q \<noteq> of_int \<lfloor>q\<rfloor>"
    by (metis Ints_of_int)
  then have f: "\<lfloor>- q\<rfloor> = - \<lfloor>q\<rfloor> - 1"
    by (simp add: floor_minus ceiling_altdef)
  show ?thesis
    unfolding round_half_even_def Let_def f
    by (auto simp add: algebra_simps)
qed

text \<open>
  Rounding into a format is odd and monotone, keeps the powers of two of the format, and so
  keeps every bound that is such a power of two.
\<close>

lemma ulp_of_pos: "0 < ulp_of fmt x"
  by (simp add: ulp_of_def)

lemma ulp_of_minus: "ulp_of fmt (- x) = ulp_of fmt x"
  by (simp add: ulp_of_def)

lemma round_fin_zero [simp]: "round_fin fmt 0 = 0"
  by (simp add: round_fin_def)

lemma round_fin_minus: "round_fin fmt (- x) = - round_fin fmt x"
  by (simp add: round_fin_def ulp_of_minus round_half_even_minus)

lemma round_fin_nonneg:
  assumes "0 \<le> x"
  shows "0 \<le> round_fin fmt x"
proof -
  have "of_int 0 \<le> x / ulp_of fmt x"
    using assms ulp_of_pos [of fmt x] by simp
  then have "round_half_even (of_int 0) \<le> round_half_even (x / ulp_of fmt x)"
    by (rule round_half_even_mono)
  then have "0 \<le> round_half_even (x / ulp_of fmt x)" by simp
  then show ?thesis
    using ulp_of_pos [of fmt x] by (simp add: round_fin_def)
qed

lemma round_fin_upper:
  assumes "0 < x"
  shows "round_fin fmt x \<le> 2 powi (max (ilog2 x) (emin fmt) + 1)"
proof -
  define E where "E = max (ilog2 x) (emin fmt)"
  define u :: rat where "u = 2 powi (E - int (prec fmt) + 1)"
  have u: "ulp_of fmt x = u" using assms by (simp add: ulp_of_def u_def E_def)
  have up: "0 < u" by (simp add: u_def)
  have "x < 2 powi (ilog2 x + 1)" using assms by (rule ilog2_bounds)
  also have "\<dots> \<le> 2 powi (E + 1)" by (simp add: two_powi_le_iff E_def)
  also have "E + 1 = int (prec fmt) + (E - int (prec fmt) + 1)" by simp
  also have "(2::rat) powi \<dots> = 2 powi int (prec fmt) * u"
    unfolding u_def by (rule two_powi_add)
  finally have "x / u < 2 powi int (prec fmt)"
    using up by (simp add: pos_divide_less_eq)
  then have "x / u \<le> of_int (2 ^ prec fmt)" by simp
  then have "round_half_even (x / u) \<le> round_half_even (of_int (2 ^ prec fmt))"
    by (rule round_half_even_mono)
  then have "round_half_even (x / u) \<le> 2 ^ prec fmt" by simp
  then have "(of_int (round_half_even (x / u)) :: rat) \<le> of_int (2 ^ prec fmt)"
    by (simp only: of_int_le_iff)
  then have "of_int (round_half_even (x / u)) * u \<le> of_int (2 ^ prec fmt) * u"
    using up by (simp only: mult_le_cancel_right_pos)
  also have "\<dots> = 2 powi int (prec fmt) * u" by simp
  also have "\<dots> = 2 powi (int (prec fmt) + (E - int (prec fmt) + 1))"
    unfolding u_def by (rule two_powi_add [symmetric])
  also have "int (prec fmt) + (E - int (prec fmt) + 1) = E + 1" by simp
  finally show ?thesis
    using assms by (simp add: round_fin_def u E_def)
qed

lemma round_fin_lower:
  assumes "0 < x" and "emin fmt \<le> ilog2 x" and "1 \<le> prec fmt"
  shows "2 powi (ilog2 x) \<le> round_fin fmt x"
proof -
  define E where "E = ilog2 x"
  define u :: rat where "u = 2 powi (E - int (prec fmt) + 1)"
  have u: "ulp_of fmt x = u" using assms by (simp add: ulp_of_def u_def E_def max_def)
  have up: "0 < u" by (simp add: u_def)
  have p: "int (prec fmt - 1) = int (prec fmt) - 1" using assms(3) by simp
  have e: "E = int (prec fmt - 1) + (E - int (prec fmt) + 1)" using p by simp
  have s: "(2::rat) powi E = 2 powi int (prec fmt - 1) * u"
    unfolding u_def by (subst e) (rule two_powi_add)
  have "2 powi E \<le> x" unfolding E_def using assms(1) by (rule ilog2_bounds)
  then have "2 powi int (prec fmt - 1) \<le> x / u"
    using up by (simp add: s pos_le_divide_eq)
  then have "of_int (2 ^ (prec fmt - 1)) \<le> x / u" by simp
  then have "round_half_even (of_int (2 ^ (prec fmt - 1))) \<le> round_half_even (x / u)"
    by (rule round_half_even_mono)
  then have "2 ^ (prec fmt - 1) \<le> round_half_even (x / u)" by simp
  then have "(of_int (2 ^ (prec fmt - 1)) :: rat) \<le> of_int (round_half_even (x / u))"
    by (simp only: of_int_le_iff)
  then have "of_int (2 ^ (prec fmt - 1)) * u \<le> of_int (round_half_even (x / u)) * u"
    using up by (simp only: mult_le_cancel_right_pos)
  moreover have "of_int (2 ^ (prec fmt - 1)) * u = 2 powi E" by (simp add: s)
  ultimately show ?thesis
    using assms by (simp add: round_fin_def u E_def)
qed

lemma round_fin_mono_pos:
  assumes "1 \<le> prec fmt" and "0 < x" and "x \<le> y"
  shows "round_fin fmt x \<le> round_fin fmt y"
proof -
  from assms have y: "0 < y" by simp
  define Ex where "Ex = max (ilog2 x) (emin fmt)"
  define Ey where "Ey = max (ilog2 y) (emin fmt)"
  have le: "Ex \<le> Ey"
    using ilog2_mono [OF assms(2,3)] by (simp add: Ex_def Ey_def max_def)
  show ?thesis
  proof (cases "Ex = Ey")
    case True
    then have u: "ulp_of fmt x = ulp_of fmt y"
      using assms(2) y by (simp add: ulp_of_def Ex_def Ey_def)
    have "x / ulp_of fmt y \<le> y / ulp_of fmt y"
      using assms(3) ulp_of_pos [of fmt y] by (simp add: divide_right_mono)
    then have "round_half_even (x / ulp_of fmt y) \<le> round_half_even (y / ulp_of fmt y)"
      by (rule round_half_even_mono)
    then have "(of_int (round_half_even (x / ulp_of fmt y)) :: rat)
        \<le> of_int (round_half_even (y / ulp_of fmt y))"
      by (simp only: of_int_le_iff)
    then have "of_int (round_half_even (x / ulp_of fmt y)) * ulp_of fmt y
        \<le> of_int (round_half_even (y / ulp_of fmt y)) * ulp_of fmt y"
      using ulp_of_pos [of fmt y] by (simp only: mult_le_cancel_right_pos)
    then show ?thesis
      using assms(2) y by (simp add: round_fin_def u)
  next
    case False
    with le have lt: "Ex < Ey" by simp
    then have ey: "Ey = ilog2 y" and em: "emin fmt \<le> ilog2 y"
      by (simp_all add: Ex_def Ey_def max_def split: if_splits)
    have "round_fin fmt x \<le> 2 powi (Ex + 1)"
      unfolding Ex_def using assms(2) by (rule round_fin_upper)
    also have "\<dots> \<le> 2 powi (ilog2 y)"
      using lt by (simp add: two_powi_le_iff ey)
    also have "\<dots> \<le> round_fin fmt y"
      using y em assms(1) by (rule round_fin_lower)
    finally show ?thesis .
  qed
qed

lemma round_fin_mono:
  assumes "1 \<le> prec fmt" and "x \<le> y"
  shows "round_fin fmt x \<le> round_fin fmt y"
proof (cases "0 < x")
  case True
  with assms show ?thesis by (simp add: round_fin_mono_pos)
next
  case False
  show ?thesis
  proof (cases "0 \<le> y")
    case True
    from False have "0 \<le> - x" by simp
    then have "0 \<le> round_fin fmt (- x)" by (rule round_fin_nonneg)
    then have "round_fin fmt x \<le> 0" by (simp add: round_fin_minus)
    also have "0 \<le> round_fin fmt y" using True by (rule round_fin_nonneg)
    finally show ?thesis .
  next
    case False
    with assms(2) have "0 < - y" and "- y \<le> - x" by simp_all
    with assms(1) have "round_fin fmt (- y) \<le> round_fin fmt (- x)"
      by (rule round_fin_mono_pos)
    then show ?thesis by (simp add: round_fin_minus)
  qed
qed

lemma round_fin_powi:
  assumes "1 \<le> prec fmt" and "emin fmt \<le> k"
  shows "round_fin fmt (2 powi k) = 2 powi k"
proof -
  have i: "ilog2 (2 powi k) = k"
    by (rule ilog2_unique) (simp_all add: two_powi_less_iff)
  have em: "emin fmt \<le> ilog2 (2 powi k)" using assms(2) by (simp add: i)
  have "2 powi (ilog2 (2 powi k)) \<le> round_fin fmt (2 powi k)"
    using _ em assms(1) by (rule round_fin_lower) simp
  then have lo: "2 powi k \<le> round_fin fmt (2 powi k)" by (simp only: i)
  define u :: rat where "u = 2 powi (k - int (prec fmt) + 1)"
  have u: "ulp_of fmt (2 powi k) = u"
    using assms(2) by (simp add: ulp_of_def i u_def max_def)
  have p: "int (prec fmt - 1) = int (prec fmt) - 1" using assms(1) by simp
  have e: "k = int (prec fmt - 1) + (k - int (prec fmt) + 1)" using p by simp
  have s: "(2::rat) powi k = 2 powi int (prec fmt - 1) * u"
    unfolding u_def by (subst e) (rule two_powi_add)
  have up: "0 < u" by (simp add: u_def)
  have "2 powi k / u = of_int (2 ^ (prec fmt - 1))"
    using up by (simp add: s)
  then have "round_half_even (2 powi k / u) = 2 ^ (prec fmt - 1)"
    by (simp only: round_half_even_of_int)
  then have "round_fin fmt (2 powi k) = of_int (2 ^ (prec fmt - 1)) * u"
    by (simp add: round_fin_def u)
  also have "\<dots> = 2 powi k" by (simp add: s)
  finally show ?thesis .
qed

lemma round_fin_abs_le:
  assumes "1 \<le> prec fmt" and "emin fmt \<le> k" and "\<bar>x\<bar> \<le> 2 powi k"
  shows "\<bar>round_fin fmt x\<bar> \<le> 2 powi k"
proof -
  from assms(3) have "x \<le> 2 powi k" and "- (2 powi k) \<le> x" by simp_all
  then have "round_fin fmt x \<le> round_fin fmt (2 powi k)"
    and "round_fin fmt (- (2 powi k)) \<le> round_fin fmt x"
    using assms(1) by (simp_all add: round_fin_mono)
  then show ?thesis
    using round_fin_powi [OF assms(1,2)] by (simp add: round_fin_minus abs_le_iff)
qed

lemma fl_finite:
  assumes "1 \<le> prec fmt" and "emin fmt \<le> k" and "k \<le> emax fmt" and "\<bar>x\<bar> \<le> 2 powi k"
  shows "fl fmt x = Fin (round_fin fmt x)" and "\<bar>round_fin fmt x\<bar> \<le> 2 powi k"
proof -
  show b: "\<bar>round_fin fmt x\<bar> \<le> 2 powi k"
    using assms(1,2,4) by (rule round_fin_abs_le)
  have "(2::rat) powi k < 2 powi (emax fmt + 1)"
    using assms(3) by (simp add: two_powi_less_iff)
  with b have "round_fin fmt x < 2 powi (emax fmt + 1)"
    and "- (2 powi (emax fmt + 1)) < round_fin fmt x" by simp_all
  then show "fl fmt x = Fin (round_fin fmt x)"
    by (simp add: fl_def Let_def not_le [symmetric])
qed

lemma valid_formatD:
  assumes "valid_format fmt"
  shows "1 \<le> prec fmt" and "emin fmt \<le> - 1" and "emin fmt \<le> 0" and "emin fmt \<le> 1"
    and "0 \<le> emax fmt" and "1 \<le> emax fmt" and "emin fmt \<le> emax fmt - 1"
  using assms by (simp_all add: valid_format_def emin_def)

lemma valid_binary32: "valid_format binary32"
  by (simp add: valid_format_def binary32_def)


lemma fl_binary32:
  assumes "\<bar>x\<bar> \<le> 1024"
  shows "fl binary32 x = Fin (round_fin binary32 x)"
proof -
  have "\<bar>x\<bar> \<le> 2 powi 10" using assms by simp
  then show ?thesis
    by (intro fl_finite(1) [where k = 10]) (simp_all add: binary32_def emin_def)
qed

lemma fl_binary64:
  assumes "\<bar>x\<bar> \<le> 1024"
  shows "fl binary64 x = Fin (round_fin binary64 x)"
proof -
  have "\<bar>x\<bar> \<le> 2 powi 10" using assms by simp
  then show ?thesis
    by (intro fl_finite(1) [where k = 10]) (simp_all add: binary64_def emin_def)
qed

text \<open>Values of the rounding function that the examples need.\<close>

lemma round_fin_binary64_values:
  "round_fin binary64 1 = 1"
  "round_fin binary64 (3 / 2) = 3 / 2"
  "round_fin binary64 45 = 45"
  "round_fin binary64 (900719925474099 / 4503599627370496) = 900719925474099 / 4503599627370496"
  "round_fin binary64 (40532396646334455 / 4503599627370496) = 5066549580791807 / 562949953421312"
  by code_simp+

lemma round_fin_binary32_values:
  "round_fin binary32 (1 / 4) = 1 / 4"
  "round_fin binary32 (3 / 2) = 3 / 2"
  "round_fin binary32 45 = 45"
  "round_fin binary32 (900719925474099 / 4503599627370496) = 13421773 / 67108864"
  "round_fin binary32 (603979785 / 67108864) = 9"
  by code_simp+

lemma tiny_score_binary32: "fl binary32 (1152921504606846975 / 1152921504606846976) = Fin 1"
proof -
  have "round_fin binary32 (1152921504606846975 / 1152921504606846976) = 1" by code_simp
  then show ?thesis by (simp add: fl_binary32)
qed

lemma tiny_score_binary64: "fl binary64 (1152921504606846975 / 1152921504606846976) = Fin 1"
proof -
  have "round_fin binary64 (1152921504606846975 / 1152921504606846976) = 1" by code_simp
  then show ?thesis by (simp add: fl_binary64)
qed

lemma literal_6_5: "py_literal (6 / 5) = Fin (5404319552844595 / 4503599627370496)"
proof -
  have "round_fin binary64 (6 / 5) = 5404319552844595 / 4503599627370496" by code_simp
  then show ?thesis by (simp add: py_literal_def fl_binary64)
qed



lemma literal_3_2: "py_literal (3 / 2) = Fin (3 / 2)"
proof -
  have "round_fin binary64 (3 / 2) = 3 / 2" by code_simp
  then show ?thesis by (simp add: py_literal_def fl_binary64)
qed

section \<open>The fingerprint\<close>

lemma length_hexdigest: "length (hexdigest bs) = 2 * length bs"
  by (induction bs) (simp_all add: hexdigest_def)

lemma length_md5: "length (md5 m) = 16"
  by (simp add: md5_def le_bytes_def split: prod.splits)

text \<open>The digest of the RFC's test string \<open>abc\<close>.\<close>

lemma md5_abc: "hexdigest (md5 [0x61, 0x62, 0x63]) = ''900150983cd24fb0d6963f7d28e17f72''"
  by code_simp

lemma same_bytes: "tobytes img_A = tobytes img_B"
  by (simp add: tobytes_def img_A_def img_B_def)

lemma different_images: "img_A \<noteq> img_B"
  by (simp add: img_A_def img_B_def)



text \<open>
  C10: \<open>get_image_hash\<close> is a function of the image's bytes alone: two images with the same
  bytes have the same fingerprint, whatever else differs and whenever it is computed; and it
  has a value for every byte sequence, a string of 32 hexadecimal digits.
\<close>

theorem get_image_hash_deterministic:
  "(tobytes a = tobytes b \<longrightarrow> get_image_hash a = get_image_hash b) \<and> length (get_image_hash a) = 32"
  by (simp add: get_image_hash_def length_hexdigest length_md5)

theorem get_image_hash_deterministic_witness:
  "tobytes img_A = tobytes img_B \<and> img_A \<noteq> img_B \<and> get_image_hash img_A = get_image_hash img_B"
  using get_image_hash_deterministic [of img_A img_B] same_bytes different_images by blast

section \<open>The detection session\<close>




lemma session_A_simps:
  "analysis_done session_A" "analyzed_image_hash session_A = Some (get_image_hash img_A)"
  "prediction_result session_A = Some (Fin (3 / 4))" "confidence_score session_A = Some (Fin (3 / 4))"
  "analysis_timestamp session_A = Some 10"
  by (simp_all add: session_A_def)


text \<open>
  C3: when the analysis is done and the uploaded image has the stored fingerprint, a run of
  the detection page (without a click on the new-analysis button) leaves the whole session
  state as it is and does not invoke the classifier, even if the analysis button is
  reported as clicked.
\<close>

theorem resubmit_same_image:
  assumes "analysis_done s" and "analyzed_image_hash s = Some (get_image_hash img)"
  shows "fst (detection_page fmt model now (Some (Inr img)) analyse_clicked False s) = s
    \<and> \<not> list_ex is_inference
          (snd (detection_page fmt model now (Some (Inr img)) analyse_clicked False s))"
  using assms
  by (simp add: detection_page_def show_results_def split: option.splits)

theorem resubmit_same_image_witness:
  "analysis_done session_A \<and> analyzed_image_hash session_A = Some (get_image_hash img_A)
     \<and> fst (detection_page binary32 (\<lambda>_. Inr (Fin (1 / 4))) 20 (Some (Inr img_A)) True False session_A)
         = session_A
     \<and> \<not> list_ex is_inference
           (snd (detection_page binary32 (\<lambda>_. Inr (Fin (1 / 4))) 20 (Some (Inr img_A)) True False
              session_A))"
  using resubmit_same_image [of session_A img_A binary32 "\<lambda>_. Inr (Fin (1 / 4))" 20 True]
  by (simp add: session_A_simps)

text \<open>
  A failure whose message is not empty is reported and writes nothing: the state is the
  one the fingerprint check left.
\<close>

lemma reported_failure_keeps_state:
  assumes "model img = Inl m" and "m \<noteq> []" and "\<not> analysis_done s"
  shows "detection_page fmt model now (Some (Inr img)) True nc s
     = (reset_analysis_state s, [Inference img, AnalysisError m])"
  using assms
  by (simp add: detection_page_def run_analysis_def process_image_prediction_def truthy_def
      reset_analysis_state_def)

text \<open>
  C8: the claim fails when the exception has an empty message (\<^verbatim>\<open>str(e) == ""\<close>, as for
  \<^verbatim>\<open>MemoryError()\<close> or a bare \<^verbatim>\<open>assert\<close>): \<^verbatim>\<open>if error:\<close> is then false, no error is
  reported, and the session is written as if the analysis had succeeded, with
  \<^verbatim>\<open>None\<close> as score and confidence.
\<close>

theorem empty_error_message_is_committed:
  "detection_page binary32 (\<lambda>_. Inl []) 7 (Some (Inr img_A)) True False initialize_session_state
   = (initialize_session_state\<lparr>prediction_result := None, confidence_score := None,
        analyzed_image_hash := Some (get_image_hash img_A), analysis_done := True,
        analysis_timestamp := Some 7\<rparr>, [Inference img_A, Rerun])"
  by (simp add: detection_page_def run_analysis_def process_image_prediction_def truthy_def
      initialize_session_state_def reset_analysis_state_def)

theorem empty_error_message_is_committed_witness:
  "\<not> analysis_done initialize_session_state
   \<and> analysis_done (fst (detection_page binary32 (\<lambda>_. Inl []) 7 (Some (Inr img_A)) True False
         initialize_session_state))
   \<and> prediction_result (fst (detection_page binary32 (\<lambda>_. Inl []) 7 (Some (Inr img_A)) True False
         initialize_session_state)) = None
   \<and> snd (detection_page binary32 (\<lambda>_. Inl []) 7 (Some (Inr img_A)) True False
         initialize_session_state) = [Inference img_A, Rerun]"
  using empty_error_message_is_committed by (simp add: initialize_session_state_def)













section \<open>The forecast encoding\<close>

lemma country_index:
  "c \<in> set countries \<Longrightarrow> getitem country_map c = Inr (int (index_of countries c))"
  by (auto simp add: countries_def country_map_def getitem_def)

lemma month_index:
  "m \<in> set months \<Longrightarrow> getitem month_map m = Inr (int (index_of months m))"
  by (auto simp add: months_def month_map_def getitem_def)

lemma city_index:
  "t \<in> set all_cities \<Longrightarrow> getitem city_map t = Inr (int (index_of all_cities t))"
  by (auto simp add: all_cities_def city_map_def getitem_def)


lemma all_cities_concat: "all_cities = concat (map snd city_options)"
  by (simp add: all_cities_def city_options_def)

lemma valid_request_city: "valid_request inp \<Longrightarrow> city inp \<in> set all_cities"
  by (auto simp add: valid_request_def countries_def city_options_def all_cities_def)

lemma index_of_less: "x \<in> set xs \<Longrightarrow> index_of xs x < length xs"
  by (induction xs) auto

lemma input_data_listed:
  assumes "country inp \<in> set countries" and "city inp \<in> set all_cities"
    and "month inp \<in> set months"
  shows "input_data inp = Inr [PyInt (int (index_of countries (country inp))),
      PyInt (int (index_of all_cities (city inp))), PyInt (int (index_of months (month inp))),
      PyFloat (temperature inp), PyFloat (humidity inp), PyFloat (rainfall inp),
      PyInt (previous_cases inp)]"
  using assms by (simp add: input_data_def country_index city_index month_index)

text \<open>
  C5: for a valid request the row given to the regressor is the list of seven numbers
  country index, city index, month index, temperature, humidity, rainfall, previous cases,
  where the indices are the positions in the list of the 5 countries, in the list of the 20
  cities (the cities of the countries one after the other, in the order of the countries),
  and in the list of the 6 months.
\<close>

theorem input_data_valid_request:
  assumes "valid_request inp"
  shows "input_data inp = Inr [PyInt (int (index_of countries (country inp))),
      PyInt (int (index_of all_cities (city inp))), PyInt (int (index_of months (month inp))),
      PyFloat (temperature inp), PyFloat (humidity inp), PyFloat (rainfall inp),
      PyInt (previous_cases inp)]
    \<and> index_of countries (country inp) < 5 \<and> length countries = 5
    \<and> index_of all_cities (city inp) < 20 \<and> length all_cities = 20
    \<and> index_of months (month inp) < 6 \<and> length months = 6
    \<and> all_cities = concat (map snd city_options) \<and> map fst city_options = countries"
proof -
  from assms have c: "country inp \<in> set countries" and m: "month inp \<in> set months"
    by (simp_all add: valid_request_def)
  from assms have t: "city inp \<in> set all_cities" by (rule valid_request_city)
  have l: "length countries = 5" "length all_cities = 20" "length months = 6"
    by (simp_all add: countries_def all_cities_def months_def)
  have "map fst city_options = countries"
    by (simp add: city_options_def countries_def)
  with input_data_listed [OF c t m] index_of_less [OF c] index_of_less [OF t] index_of_less [OF m]
    l all_cities_concat
  show ?thesis by simp
qed

lemma request_dakar_valid: "valid_request request_dakar"
  by (simp add: valid_request_def request_dakar_def countries_def city_options_def months_def)

theorem input_data_valid_request_witness:
  "valid_request request_dakar
   \<and> input_data request_dakar
       = Inr [PyInt 0, PyInt 0, PyInt 1, PyFloat (Fin 30), PyFloat (Fin 70), PyFloat (Fin 120), PyInt 20]"
proof -
  have "index_of countries (country request_dakar) = 0"
    "index_of all_cities (city request_dakar) = 0" "index_of months (month request_dakar) = 1"
    "temperature request_dakar = Fin 30" "humidity request_dakar = Fin 70"
    "rainfall request_dakar = Fin 120" "previous_cases request_dakar = 20"
    by (simp_all add: request_dakar_def countries_def all_cities_def months_def)
  with input_data_valid_request [OF request_dakar_valid] request_dakar_valid
  show ?thesis by simp
qed






section \<open>The confidence of a score\<close>

lemma one_minus_score:
  assumes "valid_format fmt" and "0 \<le> p" and "p \<le> 1"
  shows "fl fmt (1 - p) = Fin (round_fin fmt (1 - p))"
    and "0 \<le> round_fin fmt (1 - p)" and "round_fin fmt (1 - p) \<le> 1"
    and "p \<le> 1 / 2 \<Longrightarrow> 1 / 2 \<le> round_fin fmt (1 - p)"
    and "p = 0 \<Longrightarrow> round_fin fmt (1 - p) = 1"
proof -
  note v = valid_formatD [OF assms(1)]
  have a: "\<bar>1 - p\<bar> \<le> 2 powi 0" using assms(2,3) by simp
  from fl_finite [OF v(1) v(3) v(5) a]
  show "fl fmt (1 - p) = Fin (round_fin fmt (1 - p))"
    and "round_fin fmt (1 - p) \<le> 1" by simp_all
  show "0 \<le> round_fin fmt (1 - p)"
    using assms(3) by (simp add: round_fin_nonneg)
  have h: "round_fin fmt (1 / 2) = 1 / 2"
    using round_fin_powi [OF v(1) v(2)] by (simp add: power_int_minus)
  show "1 / 2 \<le> round_fin fmt (1 - p)" if "p \<le> 1 / 2"
  proof -
    from that have "1 / 2 \<le> 1 - p" by simp
    with v(1) have "round_fin fmt (1 / 2) \<le> round_fin fmt (1 - p)"
      by (rule round_fin_mono)
    then show ?thesis by (simp only: h)
  qed
  show "round_fin fmt (1 - p) = 1" if "p = 0"
    using that round_fin_powi [OF v(1) v(3)] by simp
qed

text \<open>
  C7, as stated, fails in its last part: \<^verbatim>\<open>1 - prediction\<close> is rounded, and for a positive
  score as small as \<open>2^-60\<close> the difference rounds to 1, in binary32 and in binary64. The
  confidence is then 1 although the score is neither 0 nor 1.
\<close>

theorem confidence_one_inside:
  "process_image_prediction binary32 img_A (\<lambda>_. Inr (Fin (1 / 2 ^ 60)))
     = (Some (Fin (1 / 2 ^ 60)), Some (Fin 1), None)
   \<and> process_image_prediction binary64 img_A (\<lambda>_. Inr (Fin (1 / 2 ^ 60)))
     = (Some (Fin (1 / 2 ^ 60)), Some (Fin 1), None)
   \<and> (0::rat) < 1 / 2 ^ 60 \<and> (1::rat) / 2 ^ 60 < 1"
  by (simp add: process_image_prediction_def tiny_score_binary32 tiny_score_binary64 py_max_def)

text \<open>
  C7, amended: for every score \<open>p\<close> between 0 and 1 the confidence is the larger of \<open>p\<close>
  and the rounded difference \<open>1 - p\<close>; it lies between 0.5 and 1, and it is 1 when the
  score is 0 or 1 (and, by the counterexample, not only then).
\<close>

theorem confidence_bounds:
  assumes "valid_format fmt" and "model img = Inr (Fin p)" and "0 \<le> p" and "p \<le> 1"
  shows "\<exists>c. process_image_prediction fmt img model = (Some (Fin p), Some (Fin c), None)
     \<and> c = max p (round_fin fmt (1 - p)) \<and> 1 / 2 \<le> c \<and> c \<le> 1 \<and> (p = 0 \<or> p = 1 \<longrightarrow> c = 1)"
proof -
  note s = one_minus_score [OF assms(1,3,4)]
  define c where "c = max p (round_fin fmt (1 - p))"
  have "process_image_prediction fmt img model = (Some (Fin p), Some (Fin c), None)"
    by (simp add: process_image_prediction_def assms(2) s(1) py_max_def c_def max_def)
  moreover have "1 / 2 \<le> c"
    using s(4) by (cases "p \<le> 1 / 2") (simp_all add: c_def max_def)
  moreover have "c \<le> 1" using s(3) assms(4) by (simp add: c_def)
  moreover have "p = 0 \<or> p = 1 \<longrightarrow> c = 1"
    using s(5) s(3) by (auto simp add: c_def max_def)
  ultimately show ?thesis using c_def by blast
qed

theorem confidence_bounds_witness:
  "valid_format binary32 \<and> (0::rat) \<le> 3 / 4 \<and> (3::rat) / 4 \<le> 1
   \<and> process_image_prediction binary32 img_A (\<lambda>_. Inr (Fin (3 / 4)))
       = (Some (Fin (3 / 4)), Some (Fin (3 / 4)), None)"
proof -
  have r: "round_fin binary32 (1 / 4) = 1 / 4" by code_simp
  from confidence_bounds [OF valid_binary32, of "\<lambda>_. Inr (Fin (3 / 4))" img_A "3 / 4"]
  show ?thesis by (auto simp add: valid_binary32 r)
qed

section \<open>The forecast post-processor\<close>

lemma clamp_truncation: "max 0 (if 0 \<le> x then \<lfloor>x\<rfloor> else \<lceil>x\<rceil>) = max 0 \<lfloor>x::rat\<rfloor>"
proof (cases "0 \<le> x")
  case True
  then show ?thesis by simp
next
  case False
  then have "\<lceil>x\<rceil> \<le> 0" and "\<lfloor>x\<rfloor> \<le> 0"
    by (simp_all add: ceiling_le_iff floor_le_iff)
  with False show ?thesis by simp
qed

lemma final_prediction_cases:
  "final_prediction fmt base pf hf = (case adjusted fmt base pf hf of
       Fin x \<Rightarrow> Inr (max 0 \<lfloor>x\<rfloor>)
     | PosInf \<Rightarrow> Inl OverflowError
     | NegInf \<Rightarrow> Inl OverflowError
     | NaN \<Rightarrow> Inl ValueError)"
  by (cases "adjusted fmt base pf hf") (simp_all add: final_prediction_def clamp_truncation)







text \<open>The value 30 and its negative, with the large population and the healthcare index 10.\<close>

lemma healthcare_factor_10: "healthcare_factor 10 = Fin (900719925474099 / 4503599627370496)"
  by (simp add: healthcare_factor_def literal_6_5 int_truediv_def fl_binary64 round_fin_binary64_values)

lemma adjusted_binary64_30:
  "adjusted binary64 (Fin 30) (py_literal (3 / 2)) (healthcare_factor 10)
     = Fin (5066549580791807 / 562949953421312)"
  by (simp add: adjusted_def literal_3_2 healthcare_factor_10 fl_binary64 round_fin_binary64_values)

lemma adjusted_binary32_30:
  "adjusted binary32 (Fin 30) (py_literal (3 / 2)) (healthcare_factor 10) = Fin 9"
  by (simp add: adjusted_def literal_3_2 healthcare_factor_10 fl_binary32 round_fin_binary32_values)

lemma grande: "getitem population_factor ''Grande (>200k)'' = Inr (py_literal (3 / 2))"
  by (simp add: getitem_def population_factor_def)

lemma floor_adjusted: "\<lfloor>5066549580791807 / 562949953421312 :: rat\<rfloor> = 8"
  by (simp add: floor_eq_iff)

lemma final_binary64_30:
  "final_prediction binary64 (Fin 30) (py_literal (3 / 2)) (healthcare_factor 10) = Inr 8"
  by (simp add: final_prediction_cases adjusted_binary64_30 floor_adjusted)

lemma final_binary32_30:
  "final_prediction binary32 (Fin 30) (py_literal (3 / 2)) (healthcare_factor 10) = Inr 9"
  by (simp add: final_prediction_cases adjusted_binary32_30)


lemma request_dakar_row:
  "input_data request_dakar
     = Inr [PyInt 0, PyInt 0, PyInt 1, PyFloat (Fin 30), PyFloat (Fin 70), PyFloat (Fin 120), PyInt 20]"
  by (simp add: input_data_def getitem_def request_dakar_def country_map_def city_map_def
      all_cities_def month_map_def)

lemma forecast_dakar_binary64: "forecast binary64 (\<lambda>_. Inr (Fin 30)) request_dakar = Inr 8"
  using final_binary64_30
  by (simp add: forecast_def request_dakar_row grande) (simp add: request_dakar_def grande)

text \<open>
  C2, as stated, fails in double precision: \<^verbatim>\<open>1.2 - (10 / 10)\<close> is the float
  0.19999999999999996, below 0.2; the product with 45 is 8.999999999999998, and \<^verbatim>\<open>int\<close>
  truncates it to 8.
\<close>

theorem double_precision_gives_8:
  "getitem population_factor ''Grande (>200k)'' = Inr (py_literal (3 / 2))
   \<and> py_literal (3 / 2) = Fin (3 / 2)
   \<and> healthcare_factor 10 = Fin (900719925474099 / 4503599627370496)
   \<and> (900719925474099 / 4503599627370496 :: rat) < 1 / 5
   \<and> final_prediction binary64 (Fin 30) (py_literal (3 / 2)) (healthcare_factor 10) = Inr 8"
  using grande literal_3_2 healthcare_factor_10 final_binary64_30 by simp

text \<open>
  C2, amended: with the base prediction 30, the large population and the healthcare index
  10 the healthcare factor is the binary64 number 900719925474099 / 2^52; the product is
  5066549580791807 / 2^49 and the prediction 8 when the product is computed in binary64,
  and the product is 9 and the prediction 9 when it is computed in binary32. The risk
  level is \<open>Faible\<close> (low) in both cases.
\<close>

theorem forecast_30_large_10:
  "healthcare_factor 10 = Fin (900719925474099 / 4503599627370496)
   \<and> adjusted binary64 (Fin 30) (py_literal (3 / 2)) (healthcare_factor 10)
       = Fin (5066549580791807 / 562949953421312)
   \<and> forecast binary64 (\<lambda>_. Inr (Fin 30)) request_dakar = Inr 8
   \<and> adjusted binary32 (Fin 30) (py_literal (3 / 2)) (healthcare_factor 10) = Fin 9
   \<and> final_prediction binary32 (Fin 30) (py_literal (3 / 2)) (healthcare_factor 10) = Inr 9
   \<and> risk_level 8 = ''Faible'' \<and> risk_level 9 = ''Faible''"
  using healthcare_factor_10 adjusted_binary64_30 adjusted_binary32_30 forecast_dakar_binary64
    final_binary32_30
  by (simp add: risk_level_def)

section \<open>City and country\<close>





end
